theory Spec2Isabelle
  imports Complex_Main
begin

section \<open>JavaScript number values\<close>

text \<open>
  The snippets compute on JavaScript numbers. A number value is a finite double, one of
  the two infinities, or NaN. Every finite double is a real number, so a finite value is
  carried as a real (the two zeros are both \<open>Num 0\<close>: no operation used below tells them
  apart). The relational operators follow ECMAScript: every comparison with NaN is false.
\<close>

datatype jsnum = Num real | PInf | NInf | NaN

text \<open>\<^verbatim>\<open>a < b\<close>\<close>

definition js_lt :: "jsnum \<Rightarrow> jsnum \<Rightarrow> bool" where
  "js_lt a b =
     (case (a, b) of
        (Num x, Num y) \<Rightarrow> x < y
      | (Num _, PInf) \<Rightarrow> True
      | (NInf, Num _) \<Rightarrow> True
      | (NInf, PInf) \<Rightarrow> True
      | _ \<Rightarrow> False)"

text \<open>\<^verbatim>\<open>a <= b\<close>: false when an operand is NaN, otherwise the negation of \<^verbatim>\<open>b < a\<close>.\<close>

definition js_le :: "jsnum \<Rightarrow> jsnum \<Rightarrow> bool" where
  "js_le a b = (a \<noteq> NaN \<and> b \<noteq> NaN \<and> \<not> js_lt b a)"

text \<open>\<^verbatim>\<open>a >= b\<close>: false when an operand is NaN, otherwise the negation of \<^verbatim>\<open>a < b\<close>.\<close>

definition js_ge :: "jsnum \<Rightarrow> jsnum \<Rightarrow> bool" where
  "js_ge a b = (a \<noteq> NaN \<and> b \<noteq> NaN \<and> \<not> js_lt a b)"

text \<open>
  Addition and subtraction of two finite doubles compute the exact real result and round
  it to a double, or to an infinity when it is out of range. The rounding function is not
  formalised: it is the parameter \<open>rnd\<close> of both operations, and a theorem that needs a
  property of it states the property. The cases with an infinity or NaN do not round.
\<close>

type_synonym rounding = "real \<Rightarrow> jsnum"

text \<open>\<^verbatim>\<open>a + b\<close>\<close>

fun js_add :: "rounding \<Rightarrow> jsnum \<Rightarrow> jsnum \<Rightarrow> jsnum" where
  "js_add rnd NaN _ = NaN"
| "js_add rnd _ NaN = NaN"
| "js_add rnd PInf NInf = NaN"
| "js_add rnd NInf PInf = NaN"
| "js_add rnd PInf _ = PInf"
| "js_add rnd _ PInf = PInf"
| "js_add rnd NInf _ = NInf"
| "js_add rnd _ NInf = NInf"
| "js_add rnd (Num x) (Num y) = rnd (x + y)"

text \<open>\<^verbatim>\<open>a - b\<close>\<close>

fun js_sub :: "rounding \<Rightarrow> jsnum \<Rightarrow> jsnum \<Rightarrow> jsnum" where
  "js_sub rnd NaN _ = NaN"
| "js_sub rnd _ NaN = NaN"
| "js_sub rnd PInf PInf = NaN"
| "js_sub rnd NInf NInf = NaN"
| "js_sub rnd PInf _ = PInf"
| "js_sub rnd _ PInf = NInf"
| "js_sub rnd NInf _ = NInf"
| "js_sub rnd _ NInf = PInf"
| "js_sub rnd (Num x) (Num y) = rnd (x - y)"

text \<open>A number that is finite and not below zero.\<close>

definition finite_nonneg :: "jsnum \<Rightarrow> bool" where
  "finite_nonneg a = (case a of Num r \<Rightarrow> 0 \<le> r | _ \<Rightarrow> False)"

section \<open>example.js: the cost of a travel package\<close>

text \<open>
  \<^verbatim>\<open>
  function getPackageCost(distance) {
      if (distance < 1000) { return 500; }
      else if (distance < 2000) { return 1000; }
      else if (distance < 3000) { return 1500; }
      else { return 2000; }
  }
  \<close>
\<close>

definition getPackageCost :: "jsnum \<Rightarrow> jsnum" where
  "getPackageCost distance =
     (if js_lt distance (Num 1000) then Num 500
      else if js_lt distance (Num 2000) then Num 1000
      else if js_lt distance (Num 3000) then Num 1500
      else Num 2000)"

section \<open>Removing duplicates with reduce\<close>

text \<open>
  \<^verbatim>\<open>
  const numbers=[1,3,4,5,6,4,6,9,8]
  const nonduplicateNumber=numbers.reduce((accumulate,numbers)=>{
      if(!accumulate.includes(numbers)){
          accumulate.push(numbers)
      }
      return accumulate
  },[])
  \<close>
  \<open>reduce\<close> with an initial value is a left fold. \<open>includes\<close> compares with
  SameValueZero, which on numbers is the equality of \<open>jsnum\<close> (NaN is found, the two
  zeros are one value). \<open>push\<close> appends in place and the callback returns the same
  array, so the accumulator is passed on as a value. \<open>nonduplicate\<close> is the reduce
  expression on any array; \<open>nonduplicateNumber\<close> is its value on \<open>numbers\<close>.
\<close>

definition numbers :: "jsnum list" where
  "numbers = [Num 1, Num 3, Num 4, Num 5, Num 6, Num 4, Num 6, Num 9, Num 8]"

definition nonduplicate :: "'a list \<Rightarrow> 'a list" where
  "nonduplicate xs =
     foldl (\<lambda>accumulate x. if x \<notin> set accumulate then accumulate @ [x] else accumulate) [] xs"

definition nonduplicateNumber :: "jsnum list" where
  "nonduplicateNumber = nonduplicate numbers"

text \<open>
  The elements of a list in the order of their first occurrence: the element at index
  \<open>i\<close> is kept when it does not occur before \<open>i\<close>. This is the reference the
  reduce expression is compared with.
\<close>

definition first_occurrences :: "'a list \<Rightarrow> 'a list" where
  "first_occurrences xs =
     map (\<lambda>i. xs ! i) (filter (\<lambda>i. xs ! i \<notin> set (take i xs)) [0..<length xs])"

section \<open>The processTransactions generator\<close>

text \<open>
  \<^verbatim>\<open>
  function* processTransactions(transactions) {
      let balance = 0;
      for (const transaction of transactions) {
          if (transaction.type === 'deposit') {
              balance += transaction.amount;
              yield `Deposited $${transaction.amount}, new balance: $${balance}`;
          } else if (transaction.type === 'withdraw') {
              if (balance >= transaction.amount) {
                  balance -= transaction.amount;
                  yield `Withdrew $${transaction.amount}, new balance: $${balance}`;
              } else {
                  yield `Insufficient funds for withdrawal of $${transaction.amount}, balance remains: $${balance}`;
              }
          }
      }
      return `All transactions processed, final balance: $${balance}`;
  }
  \<close>
  A transaction is an object with a \<open>type\<close> string and a numeric \<open>amount\<close>.
\<close>

record transaction =
  type :: string
  amount :: jsnum

text \<open>
  The four template literals. A message is kept as its kind and the numbers it
  interpolates, in the order of the template: \<open>Deposited a b\<close> is
  \<^verbatim>\<open>Deposited $a, new balance: $b\<close>, \<open>Withdrew a b\<close> is
  \<^verbatim>\<open>Withdrew $a, new balance: $b\<close>, \<open>InsufficientFunds a b\<close> is
  \<^verbatim>\<open>Insufficient funds for withdrawal of $a, balance remains: $b\<close> and
  \<open>AllProcessed b\<close> is \<^verbatim>\<open>All transactions processed, final balance: $b\<close>.
\<close>

datatype message =
    Deposited jsnum jsnum
  | Withdrew jsnum jsnum
  | InsufficientFunds jsnum jsnum
  | AllProcessed jsnum

text \<open>The balance a message shows.\<close>

fun shown_balance :: "message \<Rightarrow> jsnum" where
  "shown_balance (Deposited a b) = b"
| "shown_balance (Withdrew a b) = b"
| "shown_balance (InsufficientFunds a b) = b"
| "shown_balance (AllProcessed b) = b"

text \<open>
  The state of the generator: the local \<open>balance\<close> and the messages yielded so far,
  oldest first.
\<close>

record generator =
  balance :: jsnum
  yielded :: "message list"

text \<open>One pass through the body of the \<open>for\<close> loop. A transaction of another type
  yields nothing and leaves the balance as it is.\<close>

definition body :: "rounding \<Rightarrow> generator \<Rightarrow> transaction \<Rightarrow> generator" where
  "body rnd g transaction =
     (if type transaction = ''deposit'' then
        (let b = js_add rnd (balance g) (amount transaction)
         in \<lparr>balance = b, yielded = yielded g @ [Deposited (amount transaction) b]\<rparr>)
      else if type transaction = ''withdraw'' then
        (if js_ge (balance g) (amount transaction) then
           (let b = js_sub rnd (balance g) (amount transaction)
            in \<lparr>balance = b, yielded = yielded g @ [Withdrew (amount transaction) b]\<rparr>)
         else
           \<lparr>balance = balance g,
            yielded = yielded g @ [InsufficientFunds (amount transaction) (balance g)]\<rparr>)
      else g)"

text \<open>The generator after the loop has gone through all of \<open>transactions\<close>.\<close>

definition processTransactions :: "rounding \<Rightarrow> transaction list \<Rightarrow> generator" where
  "processTransactions rnd transactions =
     foldl (body rnd) \<lparr>balance = Num 0, yielded = []\<rparr> transactions"

text \<open>
  The values of the successive \<^verbatim>\<open>next().value\<close> calls until the generator is done:
  the yielded messages, then the returned one.
\<close>

definition next_values :: "rounding \<Rightarrow> transaction list \<Rightarrow> message list" where
  "next_values rnd transactions =
     (let g = processTransactions rnd transactions
      in yielded g @ [AllProcessed (balance g)])"

text \<open>The list the source runs the generator on.\<close>

definition transactions :: "transaction list" where
  "transactions =
     [\<lparr>type = ''deposit'', amount = Num 100\<rparr>,
      \<lparr>type = ''withdraw'', amount = Num 50\<rparr>,
      \<lparr>type = ''deposit'', amount = Num 200\<rparr>,
      \<lparr>type = ''withdraw'', amount = Num 30\<rparr>]"

section \<open>Facts about the comparisons\<close>

lemma js_lt_Num [simp]: "js_lt (Num x) (Num y) = (x < y)"
  by (simp add: js_lt_def)

lemma js_lt_NaN [simp]: "js_lt NaN b = False" "js_lt a NaN = False"
  by (simp_all add: js_lt_def split: jsnum.splits)

lemma js_lt_PInf_left [simp]: "js_lt PInf b = False"
  by (simp add: js_lt_def)

lemma js_lt_NInf_right [simp]: "js_lt a NInf = False"
  by (simp add: js_lt_def split: jsnum.splits)

lemma js_lt_NInf_Num [simp]: "js_lt NInf (Num y) = True"
  by (simp add: js_lt_def)

lemma js_lt_Num_PInf [simp]: "js_lt (Num x) PInf = True"
  by (simp add: js_lt_def)

lemma js_lt_NInf_PInf [simp]: "js_lt NInf PInf = True"
  by (simp add: js_lt_def)

lemma js_ge_Num [simp]: "js_ge (Num x) (Num y) = (y \<le> x)"
  by (auto simp: js_ge_def)

lemma js_ge_PInf_Num [simp]: "js_ge PInf (Num y) = True"
  by (simp add: js_ge_def)

lemma js_ge_NaN [simp]: "js_ge NaN b = False" "js_ge a NaN = False"
  by (simp_all add: js_ge_def)

lemma js_ge_NInf_Num [simp]: "js_ge NInf (Num y) = False"
  by (simp add: js_ge_def)

lemma js_lt_not_ge: "js_lt b a \<Longrightarrow> \<not> js_ge b a"
  by (simp add: js_ge_def)

lemma nonneg_cases:
  assumes "js_ge b (Num 0)"
  obtains r where "b = Num r" "0 \<le> r" | "b = PInf"
  using assms by (cases b) simp_all

lemma finite_nonneg_cases:
  assumes "finite_nonneg a"
  obtains r where "a = Num r" "0 \<le> r"
  using assms by (cases a) (simp_all add: finite_nonneg_def)

section \<open>Properties of getPackageCost\<close>

lemma getPackageCost_tier:
  "getPackageCost d \<in> {Num 500, Num 1000, Num 1500, Num 2000}"
  by (simp add: getPackageCost_def)

lemma getPackageCost_mono:
  assumes "js_le d1 d2"
  shows "js_le (getPackageCost d1) (getPackageCost d2)"
proof (cases d1)
  case (Num x)
  note d1 = this
  show ?thesis
  proof (cases d2)
    case (Num y)
    with d1 assms have "x \<le> y" by (simp add: js_le_def)
    then show ?thesis using d1 Num
      by (simp add: getPackageCost_def js_le_def)
  next
    case PInf
    then show ?thesis using d1 by (simp add: getPackageCost_def js_le_def)
  next
    case NInf
    with d1 assms show ?thesis by (simp add: js_le_def)
  next
    case NaN
    with assms show ?thesis by (simp add: js_le_def)
  qed
next
  case PInf
  with assms have "d2 = PInf" by (cases d2) (simp_all add: js_le_def)
  with PInf show ?thesis by (simp add: getPackageCost_def js_le_def)
next
  case NInf
  then show ?thesis by (cases d2) (simp_all add: getPackageCost_def js_le_def)
next
  case NaN
  with assms show ?thesis by (simp add: js_le_def)
qed

text \<open>
  Claim C9. getPackageCost returns a value on every number (NaN and the infinities
  included), the value is one of the four tiers 500, 1000, 1500, 2000, and the function is
  monotonically non-decreasing: whenever \<^verbatim>\<open>d1 <= d2\<close> holds,
  \<^verbatim>\<open>getPackageCost(d1) <= getPackageCost(d2)\<close> holds.
\<close>

theorem getPackageCost_tiers_and_monotone:
  "getPackageCost d \<in> {Num 500, Num 1000, Num 1500, Num 2000} \<and>
   (js_le d1 d2 \<longrightarrow> js_le (getPackageCost d1) (getPackageCost d2))"
  using getPackageCost_tier getPackageCost_mono by blast

theorem getPackageCost_tiers_and_monotone_witness:
  "getPackageCost (Num 2500) \<in> {Num 500, Num 1000, Num 1500, Num 2000} \<and>
   js_le (Num 999) (Num 1000) \<and>
   js_le (getPackageCost (Num 999)) (getPackageCost (Num 1000)) \<and>
   getPackageCost (Num 999) = Num 500 \<and> getPackageCost (Num 1000) = Num 1000"
  using getPackageCost_tiers_and_monotone [of "Num 2500" "Num 999" "Num 1000"]
  by (simp add: getPackageCost_def js_le_def)


section \<open>Properties of the reduce-based deduplication\<close>

lemma nonduplicate_snoc:
  "nonduplicate (xs @ [x]) =
     (if x \<notin> set (nonduplicate xs) then nonduplicate xs @ [x] else nonduplicate xs)"
  by (simp add: nonduplicate_def)

lemma set_nonduplicate: "set (nonduplicate xs) = set xs"
proof (induction xs rule: rev_induct)
  case Nil
  show ?case by (simp add: nonduplicate_def)
next
  case (snoc x xs)
  then show ?case by (auto simp: nonduplicate_snoc)
qed

lemma distinct_nonduplicate: "distinct (nonduplicate xs)"
proof (induction xs rule: rev_induct)
  case Nil
  show ?case by (simp add: nonduplicate_def)
next
  case (snoc x xs)
  then show ?case by (simp add: nonduplicate_snoc)
qed

lemma first_occurrences_snoc:
  "first_occurrences (xs @ [x]) =
     (if x \<notin> set xs then first_occurrences xs @ [x] else first_occurrences xs)"
proof -
  define P' where "P' = (\<lambda>i. (xs @ [x]) ! i \<notin> set (take i (xs @ [x])))"
  define P where "P = (\<lambda>i. xs ! i \<notin> set (take i xs))"
  have f: "filter P' [0..<length xs] = filter P [0..<length xs]"
    by (rule filter_cong) (simp_all add: P'_def P_def nth_append)
  have m: "map (\<lambda>i. (xs @ [x]) ! i) (filter P [0..<length xs])
         = map (\<lambda>i. xs ! i) (filter P [0..<length xs])"
    by (rule map_cong) (simp_all add: nth_append)
  have l: "P' (length xs) = (x \<notin> set xs)"
    by (simp add: P'_def)
  have "first_occurrences (xs @ [x])
      = map (\<lambda>i. (xs @ [x]) ! i) (filter P' ([0..<length xs] @ [length xs]))"
    by (simp add: first_occurrences_def P'_def)
  also have "\<dots> = map (\<lambda>i. (xs @ [x]) ! i) (filter P [0..<length xs])
                  @ (if x \<notin> set xs then [x] else [])"
    by (simp add: f l)
  also have "\<dots> = first_occurrences xs @ (if x \<notin> set xs then [x] else [])"
    using m by (simp add: first_occurrences_def P_def)
  finally show ?thesis by simp
qed

lemma nonduplicate_first_occurrences: "nonduplicate xs = first_occurrences xs"
proof (induction xs rule: rev_induct)
  case Nil
  show ?case by (simp add: nonduplicate_def first_occurrences_def)
next
  case (snoc x xs)
  have "nonduplicate (xs @ [x]) =
          (if x \<notin> set xs then nonduplicate xs @ [x] else nonduplicate xs)"
    by (simp add: nonduplicate_snoc set_nonduplicate)
  with snoc show ?case by (simp add: first_occurrences_snoc)
qed

lemma nonduplicateNumber_value:
  "nonduplicateNumber = [Num 1, Num 3, Num 4, Num 5, Num 6, Num 9, Num 8]"
  by (simp add: nonduplicateNumber_def nonduplicate_def numbers_def)

text \<open>
  Claim C10. The reduce-based deduplication returns a list that holds each distinct
  element of the input exactly once (it has no repetition and the same elements as the
  input), in the order of first occurrence in the input (it is the input restricted to the
  indices where an element occurs for the first time); on the array
  \<^verbatim>\<open>[1,3,4,5,6,4,6,9,8]\<close> of the source it returns \<^verbatim>\<open>[1,3,4,5,6,9,8]\<close>.
\<close>

theorem nonduplicate_first_occurrence_order:
  "distinct (nonduplicate xs) \<and>
   set (nonduplicate xs) = set xs \<and>
   nonduplicate xs = first_occurrences xs \<and>
   nonduplicateNumber = [Num 1, Num 3, Num 4, Num 5, Num 6, Num 9, Num 8]"
  by (simp add: distinct_nonduplicate set_nonduplicate nonduplicateNumber_value
        nonduplicate_first_occurrences [symmetric])

section \<open>Properties of processTransactions\<close>

lemma body_balance_nonneg:
  assumes rnd: "\<And>r. 0 \<le> r \<Longrightarrow> js_ge (rnd r) (Num 0)"
    and a: "finite_nonneg (amount t)"
    and b: "js_ge (balance g) (Num 0)"
  shows "js_ge (balance (body rnd g t)) (Num 0)"
proof -
  from a obtain x where x: "amount t = Num x" "0 \<le> x"
    by (rule finite_nonneg_cases)
  from b show ?thesis
  proof (cases rule: nonneg_cases)
    case (1 r)
    then show ?thesis using x rnd
      by (simp add: body_def Let_def)
  next
    case 2
    then show ?thesis using x
      by (simp add: body_def Let_def)
  qed
qed

lemma body_yielded:
  "yielded (body rnd g t) = yielded g \<or>
   (\<exists>m. yielded (body rnd g t) = yielded g @ [m] \<and> shown_balance m = balance (body rnd g t))"
  by (simp add: body_def Let_def)

lemma processTransactions_Nil:
  "processTransactions rnd [] = \<lparr>balance = Num 0, yielded = []\<rparr>"
  by (simp add: processTransactions_def)

lemma processTransactions_snoc:
  "processTransactions rnd (ts @ [t]) = body rnd (processTransactions rnd ts) t"
  by (simp add: processTransactions_def)

lemma processTransactions_nonneg:
  assumes rnd: "\<And>r. 0 \<le> r \<Longrightarrow> js_ge (rnd r) (Num 0)"
    and a: "\<forall>t\<in>set ts. finite_nonneg (amount t)"
  shows "js_ge (balance (processTransactions rnd ts)) (Num 0) \<and>
         (\<forall>m\<in>set (yielded (processTransactions rnd ts)). js_ge (shown_balance m) (Num 0))"
  using a
proof (induction ts rule: rev_induct)
  case Nil
  show ?case by (simp add: processTransactions_Nil)
next
  case (snoc t ts)
  let ?g = "processTransactions rnd ts"
  from snoc have g: "js_ge (balance ?g) (Num 0)"
    and ys: "\<forall>m\<in>set (yielded ?g). js_ge (shown_balance m) (Num 0)"
    and t: "finite_nonneg (amount t)"
    by simp_all
  have b': "js_ge (balance (body rnd ?g t)) (Num 0)"
    using rnd t g by (rule body_balance_nonneg)
  moreover have "\<forall>m\<in>set (yielded (body rnd ?g t)). js_ge (shown_balance m) (Num 0)"
    using body_yielded [of rnd ?g t] ys b' by auto
  ultimately show ?case by (simp add: processTransactions_snoc)
qed

lemma body_insufficient:
  assumes "type t = ''withdraw''" and "js_lt (balance g) (amount t)"
  shows "body rnd g t =
           \<lparr>balance = balance g,
            yielded = yielded g @ [InsufficientFunds (amount t) (balance g)]\<rparr>"
  using assms by (simp add: body_def js_lt_not_ge)

lemma processTransactions_take_Suc:
  assumes "n < length ts"
  shows "processTransactions rnd (take (Suc n) ts) =
           body rnd (processTransactions rnd (take n ts)) (ts ! n)"
  using assms by (simp add: take_Suc_conv_app_nth processTransactions_snoc)

text \<open>The five values the source logs for its own list, as its comments give them.\<close>

lemma transactions_log:
  "next_values Num transactions =
     [Deposited (Num 100) (Num 100), Withdrew (Num 50) (Num 50),
      Deposited (Num 200) (Num 250), Withdrew (Num 30) (Num 220),
      AllProcessed (Num 220)]"
  by (simp add: next_values_def processTransactions_def transactions_def body_def Let_def)

text \<open>
  Claim C8, for finite amounts. For every transaction list whose amounts are finite
  and not below zero, the running balance is not below zero at every step of the generator (after every
  prefix of the list, and in every message yielded); and a withdrawal whose amount exceeds
  the current balance leaves the balance unchanged and yields the insufficient-funds
  message instead of applying the debit. The only property of rounding used is that
  rounding a real that is not below zero gives a number that is not below zero.
\<close>

theorem processTransactions_finite_amounts_nonneg:
  assumes rnd: "\<forall>r. 0 \<le> r \<longrightarrow> js_ge (rnd r) (Num 0)"
    and amounts: "\<forall>t\<in>set ts. finite_nonneg (amount t)"
  shows "(\<forall>n. js_ge (balance (processTransactions rnd (take n ts))) (Num 0)) \<and>
         (\<forall>m\<in>set (yielded (processTransactions rnd ts)). js_ge (shown_balance m) (Num 0)) \<and>
         (\<forall>n<length ts.
            type (ts ! n) = ''withdraw'' \<and>
            js_lt (balance (processTransactions rnd (take n ts))) (amount (ts ! n)) \<longrightarrow>
            processTransactions rnd (take (Suc n) ts) =
              \<lparr>balance = balance (processTransactions rnd (take n ts)),
               yielded = yielded (processTransactions rnd (take n ts)) @
                 [InsufficientFunds (amount (ts ! n))
                    (balance (processTransactions rnd (take n ts)))]\<rparr>)"
proof (intro conjI allI impI)
  fix n
  have "\<forall>t\<in>set (take n ts). finite_nonneg (amount t)"
    using amounts by (meson in_set_takeD)
  with rnd show "js_ge (balance (processTransactions rnd (take n ts))) (Num 0)"
    using processTransactions_nonneg [of rnd "take n ts"] by blast
next
  show "\<forall>m\<in>set (yielded (processTransactions rnd ts)). js_ge (shown_balance m) (Num 0)"
    using processTransactions_nonneg [of rnd ts] rnd amounts by blast
next
  fix n
  assume "n < length ts"
    and "type (ts ! n) = ''withdraw'' \<and>
         js_lt (balance (processTransactions rnd (take n ts))) (amount (ts ! n))"
  then show "processTransactions rnd (take (Suc n) ts) =
              \<lparr>balance = balance (processTransactions rnd (take n ts)),
               yielded = yielded (processTransactions rnd (take n ts)) @
                 [InsufficientFunds (amount (ts ! n))
                    (balance (processTransactions rnd (take n ts)))]\<rparr>"
    by (simp add: processTransactions_take_Suc body_insufficient)
qed

text \<open>
  The theorem on the list deposit 100, withdraw 150, withdraw 50, with exact
  arithmetic: the second transaction exceeds the balance of 100 and leaves it unchanged.
\<close>

theorem processTransactions_finite_amounts_nonneg_witness:
  "finite_nonneg (Num 100) \<and> finite_nonneg (Num 150) \<and> finite_nonneg (Num 50) \<and>
   js_ge (balance (processTransactions Num
     [\<lparr>type = ''deposit'', amount = Num 100\<rparr>,
      \<lparr>type = ''withdraw'', amount = Num 150\<rparr>,
      \<lparr>type = ''withdraw'', amount = Num 50\<rparr>])) (Num 0) \<and>
   js_lt (Num 100) (Num 150) \<and>
   processTransactions Num
     [\<lparr>type = ''deposit'', amount = Num 100\<rparr>,
      \<lparr>type = ''withdraw'', amount = Num 150\<rparr>] =
     \<lparr>balance = Num 100,
      yielded = [Deposited (Num 100) (Num 100), InsufficientFunds (Num 150) (Num 100)]\<rparr> \<and>
   processTransactions Num
     [\<lparr>type = ''deposit'', amount = Num 100\<rparr>,
      \<lparr>type = ''withdraw'', amount = Num 150\<rparr>,
      \<lparr>type = ''withdraw'', amount = Num 50\<rparr>] =
     \<lparr>balance = Num 50,
      yielded = [Deposited (Num 100) (Num 100), InsufficientFunds (Num 150) (Num 100),
                 Withdrew (Num 50) (Num 50)]\<rparr>"
proof -
  let ?ts = "[\<lparr>type = ''deposit'', amount = Num 100\<rparr>,
              \<lparr>type = ''withdraw'', amount = Num 150\<rparr>,
              \<lparr>type = ''withdraw'', amount = Num 50\<rparr>]"
  have rnd: "\<forall>r. 0 \<le> r \<longrightarrow> js_ge (Num r) (Num 0)"
    by simp
  have amounts: "\<forall>t\<in>set ?ts. finite_nonneg (amount t)"
    by (simp add: finite_nonneg_def)
  note main = processTransactions_finite_amounts_nonneg [OF rnd amounts]
  have one: "processTransactions Num [\<lparr>type = ''deposit'', amount = Num 100\<rparr>] =
               \<lparr>balance = Num 100, yielded = [Deposited (Num 100) (Num 100)]\<rparr>"
    by (simp add: processTransactions_def body_def Let_def)
  from main have "js_ge (balance (processTransactions Num (take 3 ?ts))) (Num 0)"
    by blast
  then have final: "js_ge (balance (processTransactions Num ?ts)) (Num 0)"
    by simp
  from main have "1 < length ?ts \<longrightarrow>
      type (?ts ! 1) = ''withdraw'' \<and>
      js_lt (balance (processTransactions Num (take 1 ?ts))) (amount (?ts ! 1)) \<longrightarrow>
      processTransactions Num (take (Suc 1) ?ts) =
        \<lparr>balance = balance (processTransactions Num (take 1 ?ts)),
         yielded = yielded (processTransactions Num (take 1 ?ts)) @
           [InsufficientFunds (amount (?ts ! 1))
              (balance (processTransactions Num (take 1 ?ts)))]\<rparr>"
    by blast
  then have two: "processTransactions Num (take 2 ?ts) =
      \<lparr>balance = Num 100,
       yielded = [Deposited (Num 100) (Num 100), InsufficientFunds (Num 150) (Num 100)]\<rparr>"
    by (simp add: one)
  have three: "processTransactions Num ?ts =
      \<lparr>balance = Num 50,
       yielded = [Deposited (Num 100) (Num 100), InsufficientFunds (Num 150) (Num 100),
                  Withdrew (Num 50) (Num 50)]\<rparr>"
    by (simp add: processTransactions_def body_def Let_def)
  from final two three show ?thesis
    by (simp add: finite_nonneg_def)
qed

text \<open>
  Claim C8 as stated, for every list whose amounts are not below zero, fails on an
  infinite amount: \<^verbatim>\<open>Infinity >= 0\<close> holds, a deposit of Infinity makes the balance
  Infinity, the withdrawal of Infinity passes the guard \<^verbatim>\<open>balance >= amount\<close>, and
  \<^verbatim>\<open>Infinity - Infinity\<close> is NaN, which is not \<^verbatim>\<open>>= 0\<close>. No rounding takes
  place on this input.
\<close>

theorem processTransactions_infinite_amount_counterexample:
  "js_ge (amount \<lparr>type = ''deposit'', amount = PInf\<rparr>) (Num 0) \<and>
   js_ge (amount \<lparr>type = ''withdraw'', amount = PInf\<rparr>) (Num 0) \<and>
   processTransactions Num
     [\<lparr>type = ''deposit'', amount = PInf\<rparr>, \<lparr>type = ''withdraw'', amount = PInf\<rparr>] =
     \<lparr>balance = NaN, yielded = [Deposited PInf PInf, Withdrew PInf NaN]\<rparr> \<and>
   \<not> js_ge (balance (processTransactions Num
     [\<lparr>type = ''deposit'', amount = PInf\<rparr>, \<lparr>type = ''withdraw'', amount = PInf\<rparr>]))
     (Num 0)"
  by (simp add: processTransactions_def body_def Let_def js_ge_def)

end
